theory Spec2Isabelle
  imports Main "HOL-Library.Word"
begin

section \<open>Customer Account authentication: OAuth 2.0 with PKCE\<close>

text \<open>
  A shallow embedding of the customer authentication code of the storefront:
  \<^verbatim>\<open>app/lib/customer-auth.ts\<close> (PKCE parameters, token exchange, identity token
  decoding, expiry), \<^verbatim>\<open>app/lib/customer-session.ts\<close> (the token store kept in the
  session), \<^verbatim>\<open>app/lib/customer-guards.ts\<close> (route guards) and the routes
  \<^verbatim>\<open>account.authorize.callback.tsx\<close> and \<^verbatim>\<open>account.logout.tsx\<close>.

  Conventions of the embedding.
  \<^item> A JavaScript string is a \<open>string\<close>; \<open>undefined\<close> and \<open>null\<close> are \<open>None\<close>.
  \<^item> Values have the types that the TypeScript declarations give them: tokens are
    strings, \<open>expires_in\<close> and \<open>expiresAt\<close> are integers (seconds and epoch
    milliseconds).
  \<^item> The source computes with numbers in IEEE 754 double precision: a sum or product
    of integers is the exact one as long as that is at most \<open>2\<^sup>5\<^sup>3\<close> in magnitude, and
    beyond that it is whatever the engine rounds it to, which the world supplies.
  \<^item> A thrown exception is the left summand of a result \<open>js_error + 'a\<close>.
  \<^item> What the platform supplies (\<open>atob\<close>, \<open>JSON.parse\<close>, \<open>crypto.subtle.digest\<close>,
    \<open>TextEncoder\<close>, \<open>URL\<close>, the session's \<open>commit\<close>, the answers of the remote
    servers and the readings of the clock) is a parameter of the functions that use it.
\<close>

subsection \<open>Base64 (\<open>btoa\<close>) and the helpers of \<^verbatim>\<open>customer-auth.ts\<close>\<close>

definition b64_alphabet :: string where
  "b64_alphabet = ''ABCDEFGHIJKLMNOPQRSTUVWXYZabcdefghijklmnopqrstuvwxyz0123456789+/''"

definition b64url_alphabet :: string where
  "b64url_alphabet = ''ABCDEFGHIJKLMNOPQRSTUVWXYZabcdefghijklmnopqrstuvwxyz0123456789-_''"

text \<open>
  Base 64 encoding of a byte sequence as RFC 4648 defines it, for an alphabet \<open>al\<close>
  of 64 characters: three bytes give four characters; a rest of one byte gives two
  characters and a rest of two bytes gives three, followed by \<open>=\<close> padding up to four
  when \<open>pad\<close> is set.
\<close>

fun base64_encode :: "string \<Rightarrow> bool \<Rightarrow> 8 word list \<Rightarrow> string" where
  "base64_encode al pad [] = []"
| "base64_encode al pad [a] =
     (let n = unat a * 65536
      in [al ! (n div 262144), al ! (n div 4096 mod 64)] @ (if pad then ''=='' else []))"
| "base64_encode al pad [a, b] =
     (let n = unat a * 65536 + unat b * 256
      in [al ! (n div 262144), al ! (n div 4096 mod 64), al ! (n div 64 mod 64)]
         @ (if pad then ''='' else []))"
| "base64_encode al pad (a # b # c # rest) =
     (let n = unat a * 65536 + unat b * 256 + unat c
      in [al ! (n div 262144), al ! (n div 4096 mod 64), al ! (n div 64 mod 64),
          al ! (n mod 64)])
     @ base64_encode al pad rest"

text \<open>
  The platform's \<open>btoa\<close>: the padded base 64 encoding, in the standard alphabet, of the
  bytes that the characters of a binary string stand for. (A \<open>char\<close> is one byte, so
  the strings on which the platform's \<open>btoa\<close> throws, those with a code unit above 255,
  are outside the type; the code only passes strings made from byte arrays.)
\<close>

definition btoa :: "string \<Rightarrow> string" where
  "btoa str = base64_encode b64_alphabet True (map of_char str)"

text \<open>\<^verbatim>\<open>base64.replace(/\+/g, '-').replace(/\//g, '_').replace(/=/g, '')\<close>\<close>

definition base64UrlEncode :: "string \<Rightarrow> string" where
  "base64UrlEncode str =
     (let base64 = btoa str
      in filter (\<lambda>ch. ch \<noteq> CHR ''='')
           (map (\<lambda>ch. if ch = CHR ''/'' then CHR ''_'' else ch)
             (map (\<lambda>ch. if ch = CHR ''+'' then CHR ''-'' else ch) base64)))"

text \<open>\<^verbatim>\<open>String.fromCharCode(...Array.from(new Uint8Array(hash)))\<close>\<close>

definition convertBufferToString :: "8 word list \<Rightarrow> string" where
  "convertBufferToString hash = map (\<lambda>b. char_of (unat b)) hash"

text \<open>
  The specification's encoding of a digest: base64url (the alphabet of RFC 4648,
  section 5) without padding.
\<close>

definition base64url_nopad :: "8 word list \<Rightarrow> string" where
  "base64url_nopad bytes = base64_encode b64url_alphabet False bytes"


subsection \<open>Errors and JSON values\<close>

text \<open>
  The exceptions the code can raise. The first group are the \<^verbatim>\<open>new Error(...)\<close> of the
  source, one constructor per message, carrying the values interpolated into the
  message; \<open>Redirect_thrown\<close> is \<^verbatim>\<open>throw redirect(...)\<close>; \<open>Platform\<close> is an exception
  raised by a platform function, with its name.
\<close>

datatype js_error =
    Failed_to_discover_auth_endpoints string nat
  | Token_exchange_failed nat string
  | Token_refresh_failed nat string
  | Invalid_JWT_token_format
  | Required_environment_variables_not_set
  | SHOP_ID_could_not_be_determined
  | PUBLIC_STORE_DOMAIN_is_not_set
  | PUBLIC_STORE_DOMAIN_and_CUSTOMER_ACCOUNT_CLIENT_ID_must_be_set
  | Redirect_thrown string
  | Platform string

datatype json =
    JNull
  | JBool bool
  | JNumber int
  | JString string
  | JArray "json list"
  | JObject "(string \<times> json) list"

text \<open>
  Truthiness of a value that is a string or \<open>undefined\<close>: \<open>truthy v\<close> is the string when
  \<open>v\<close> is a non-empty string, and \<open>None\<close> when \<^verbatim>\<open>!v\<close> holds (\<open>undefined\<close> or \<open>''\<close>).
\<close>

definition truthy :: "string option \<Rightarrow> string option" where
  "truthy v = (case v of None \<Rightarrow> None | Some str \<Rightarrow> if str = [] then None else Some str)"

text \<open>\<^verbatim>\<open>a || b\<close> on such values.\<close>

definition or_else :: "string option \<Rightarrow> string option \<Rightarrow> string option" where
  "or_else a b = (case truthy a of Some str \<Rightarrow> Some str | None \<Rightarrow> b)"

subsection \<open>The session, the environment and the request\<close>

text \<open>
  The session is a key-value store (\<open>get\<close>, \<open>set\<close>, \<open>unset\<close>); the code uses the seven
  keys of \<open>SESSION_KEYS\<close>, and each is a field here, named by the key's string:
  \<open>session.get(SESSION_KEYS.STATE)\<close> is \<open>customer_state session\<close>, \<open>set\<close> stores
  \<open>Some\<close> value and \<open>unset\<close> stores \<open>None\<close>.
\<close>

record session =
  customer_code_verifier :: "string option"
  customer_state :: "string option"
  customer_nonce :: "string option"
  customer_access_token :: "string option"
  customer_refresh_token :: "string option"
  customer_id_token :: "string option"
  customer_expires_at :: "int option"

record env =
  PUBLIC_STORE_DOMAIN :: "string option"
  PUBLIC_CUSTOMER_ACCOUNT_API_CLIENT_ID :: "string option"
  CUSTOMER_ACCOUNT_CLIENT_ID :: "string option"
  SHOP_ID :: "string option"
  PUBLIC_CUSTOMER_ACCOUNT_API_URL :: "string option"

text \<open>
  The request, as \<^verbatim>\<open>new URL(request.url)\<close> presents it: \<open>url.origin\<close> and the pairs of
  \<open>url.searchParams\<close> in order (\<open>searchParams.get\<close> returns the first value of a name,
  as \<open>map_of\<close> does).
\<close>

record request =
  origin :: string
  searchParams :: "(string \<times> string) list"

text \<open>
  A route's response: \<^verbatim>\<open>redirect(location, {headers: {'Set-Cookie': cookie}})\<close>, the
  header absent when the code passes none.
\<close>

datatype route_response = Redirect string "string option"

subsection \<open>The platform\<close>

text \<open>
  The platform functions the code calls. \<open>atob\<close>, \<open>JSON_parse\<close> and \<open>commit\<close> return
  \<open>None\<close> where the platform throws (\<open>InvalidCharacterError\<close>, \<open>SyntaxError\<close>, a rejected
  promise). \<open>URL_with_params base ps\<close> is \<^verbatim>\<open>new URL(base)\<close> with the pairs \<open>ps\<close> appended to
  its \<open>searchParams\<close>, as a string; \<open>None\<close> where \<^verbatim>\<open>new URL\<close> throws a \<open>TypeError\<close>.
\<close>

record platform =
  atob :: "string \<Rightarrow> string option"
  JSON_parse :: "string \<Rightarrow> json option"
  URL_with_params :: "string \<Rightarrow> (string \<times> string) list \<Rightarrow> string option"
  commit :: "session \<Rightarrow> string option"

subsection \<open>The network and the clock\<close>

record http_request =
  url :: string
  http_method :: string
  headers :: "(string \<times> string) list"
  form_body :: "(string \<times> string) list"

text \<open>
  A response, with what \<open>response.text()\<close> and \<open>response.json()\<close> resolve to; the latter
  has the type the code casts it to, and is \<open>None\<close> where parsing the body fails.
\<close>

record 'a http_response =
  ok :: bool
  status :: nat
  statusText :: string
  response_text :: string
  response_json :: "'a option"

record OpenIDConfiguration =
  authorization_endpoint :: string
  token_endpoint :: string
  end_session_endpoint :: string
  jwks_uri :: string
  issuer :: string

text \<open>
  \<open>AccessTokenResponse\<close>, and \<^verbatim>\<open>Omit<AccessTokenResponse, 'id_token'>\<close>, which a refresh
  returns: the former extends the latter by the identity token.
\<close>

record RefreshedTokenResponse =
  access_token :: string
  expires_in :: int
  refresh_token :: string

record AccessTokenResponse = RefreshedTokenResponse +
  id_token :: string

text \<open>
  The world outside the request handler. The remote servers: what each kind of request
  is answered with (\<open>None\<close>: \<open>fetch\<close> rejects). The clock: \<open>clock w n\<close> is what the
  \<open>n\<close>-th call of \<open>Date.now()\<close> returns. The engine's arithmetic where it is not
  exact: \<open>rounded_sum w a b\<close> and \<open>rounded_product w a b\<close> are what \<^verbatim>\<open>a + b\<close> and
  \<^verbatim>\<open>a * b\<close> evaluate to when the exact result lies beyond \<open>2\<^sup>5\<^sup>3\<close> in magnitude. The
  handler's trace: \<open>ticks\<close> counts the calls of \<open>Date.now()\<close> so far and \<open>requests\<close> lists
  the network calls so far, oldest first.
\<close>

record world =
  openid_configuration :: "http_request \<Rightarrow> OpenIDConfiguration http_response option"
  token_authorization_code :: "http_request \<Rightarrow> AccessTokenResponse http_response option"
  token_refresh :: "http_request \<Rightarrow> RefreshedTokenResponse http_response option"
  clock :: "nat \<Rightarrow> int"
  rounded_sum :: "int \<Rightarrow> int \<Rightarrow> int"
  rounded_product :: "int \<Rightarrow> int \<Rightarrow> int"
  ticks :: nat
  requests :: "http_request list"

definition Date_now :: "world \<Rightarrow> int \<times> world" where
  "Date_now w = (clock w (ticks w), w\<lparr>ticks := Suc (ticks w)\<rparr>)"

text \<open>
  \<^verbatim>\<open>a + b\<close> and \<^verbatim>\<open>a * b\<close> on numbers. Every integer of magnitude up to
  \<open>2\<^sup>5\<^sup>3 = 9007199254740992\<close> is a double, and an operation on doubles returns the double
  nearest to the exact result: the exact result itself, when it is such an integer.
\<close>

definition number_add :: "world \<Rightarrow> int \<Rightarrow> int \<Rightarrow> int" where
  "number_add w a b = (if \<bar>a + b\<bar> \<le> 9007199254740992 then a + b else rounded_sum w a b)"

definition number_multiply :: "world \<Rightarrow> int \<Rightarrow> int \<Rightarrow> int" where
  "number_multiply w a b =
     (if \<bar>a * b\<bar> \<le> 9007199254740992 then a * b else rounded_product w a b)"

text \<open>\<open>fetch\<close>: the request is logged, and answered by the server it is addressed to.\<close>

definition fetch ::
  "(world \<Rightarrow> http_request \<Rightarrow> 'a http_response option) \<Rightarrow> http_request \<Rightarrow> world
     \<Rightarrow> 'a http_response option \<times> world" where
  "fetch server req w = (server w req, w\<lparr>requests := requests w @ [req]\<rparr>)"

subsection \<open>\<^verbatim>\<open>customer-auth.ts\<close>\<close>

definition discoverAuthEndpoints ::
  "string \<Rightarrow> world \<Rightarrow> (js_error + OpenIDConfiguration) \<times> world" where
  "discoverAuthEndpoints shopDomain w =
     (let discoveryUrl = ''https://'' @ shopDomain @ ''/.well-known/openid-configuration'';
          (response, w1) =
            fetch openid_configuration
              \<lparr>url = discoveryUrl, http_method = ''GET'',
               headers = [(''User-Agent'', ''Hydrogen Storefront''), (''Accept'', ''application/json'')],
               form_body = []\<rparr> w
      in case response of
           None \<Rightarrow> (Inl (Platform ''TypeError''), w1)
         | Some r \<Rightarrow>
             if \<not> ok r then (Inl (Failed_to_discover_auth_endpoints (statusText r) (status r)), w1)
             else (case response_json r of
                     None \<Rightarrow> (Inl (Platform ''SyntaxError''), w1)
                   | Some config \<Rightarrow> (Inr config, w1)))"

text \<open>
  \<open>exchangeCodeForToken\<close> and \<open>refreshAccessToken\<close> take the fields of their parameter
  object as arguments.
\<close>

definition exchangeCodeForToken ::
  "string \<Rightarrow> string \<Rightarrow> string \<Rightarrow> string \<Rightarrow> string \<Rightarrow> world
     \<Rightarrow> (js_error + AccessTokenResponse) \<times> world" where
  "exchangeCodeForToken tokenEndpoint clientId redirectUri code codeVerifier w =
     (let body = [(''grant_type'', ''authorization_code''), (''client_id'', clientId),
                  (''redirect_uri'', redirectUri), (''code'', code),
                  (''code_verifier'', codeVerifier)];
          (response, w1) =
            fetch token_authorization_code
              \<lparr>url = tokenEndpoint, http_method = ''POST'',
               headers = [(''content-type'', ''application/x-www-form-urlencoded''),
                          (''user-agent'', ''Hydrogen Storefront'')],
               form_body = body\<rparr> w
      in case response of
           None \<Rightarrow> (Inl (Platform ''TypeError''), w1)
         | Some r \<Rightarrow>
             if \<not> ok r then (Inl (Token_exchange_failed (status r) (response_text r)), w1)
             else (case response_json r of
                     None \<Rightarrow> (Inl (Platform ''SyntaxError''), w1)
                   | Some tokens \<Rightarrow> (Inr tokens, w1)))"

definition refreshAccessToken ::
  "string \<Rightarrow> string \<Rightarrow> string \<Rightarrow> world \<Rightarrow> (js_error + RefreshedTokenResponse) \<times> world" where
  "refreshAccessToken tokenEndpoint clientId refreshToken' w =
     (let body = [(''grant_type'', ''refresh_token''), (''client_id'', clientId),
                  (''refresh_token'', refreshToken')];
          (response, w1) =
            fetch token_refresh
              \<lparr>url = tokenEndpoint, http_method = ''POST'',
               headers = [(''content-type'', ''application/x-www-form-urlencoded''),
                          (''user-agent'', ''Hydrogen Storefront'')],
               form_body = body\<rparr> w
      in case response of
           None \<Rightarrow> (Inl (Platform ''TypeError''), w1)
         | Some r \<Rightarrow>
             if \<not> ok r then (Inl (Token_refresh_failed (status r) (response_text r)), w1)
             else (case response_json r of
                     None \<Rightarrow> (Inl (Platform ''SyntaxError''), w1)
                   | Some tokens \<Rightarrow> (Inr tokens, w1)))"

text \<open>
  \<open>generateCodeChallenge\<close>. The parameter \<open>SHA256_digest\<close> is the platform's
  \<^verbatim>\<open>crypto.subtle.digest({name: 'SHA-256'}, _)\<close> and \<open>TextEncoder_encode\<close> is
  \<^verbatim>\<open>new TextEncoder().encode\<close> (UTF-8).
\<close>

definition generateCodeChallenge ::
  "(8 word list \<Rightarrow> 8 word list) \<Rightarrow> (string \<Rightarrow> 8 word list) \<Rightarrow> string \<Rightarrow> string" where
  "generateCodeChallenge SHA256_digest TextEncoder_encode codeVerifier =
     (let digestOp = SHA256_digest (TextEncoder_encode codeVerifier);
          hash = convertBufferToString digestOp
      in base64UrlEncode hash)"

definition buildLogoutUrl :: "platform \<Rightarrow> string \<Rightarrow> string \<Rightarrow> string \<Rightarrow> js_error + string" where
  "buildLogoutUrl P endSessionEndpoint idToken' postLogoutRedirectUri =
     (case URL_with_params P endSessionEndpoint
             [(''id_token_hint'', idToken'), (''post_logout_redirect_uri'', postLogoutRedirectUri)] of
        None \<Rightarrow> Inl (Platform ''TypeError'')
      | Some str \<Rightarrow> Inr str)"

text \<open>
  \<^verbatim>\<open>token.split('.')\<close>: the segments between the separators; an empty string has the one
  segment \<open>''\<close>.
\<close>

fun split_on :: "char \<Rightarrow> string \<Rightarrow> string list" where
  "split_on sep [] = [[]]"
| "split_on sep (ch # rest) =
     (if ch = sep then [] # split_on sep rest
      else (case split_on sep rest of
              seg # segs \<Rightarrow> (ch # seg) # segs
            | [] \<Rightarrow> [[ch]]))"

text \<open>An array element read by destructuring: \<open>undefined\<close> past the end.\<close>

definition element :: "'a list \<Rightarrow> nat \<Rightarrow> 'a option" where
  "element xs i = (if i < length xs then Some (xs ! i) else None)"

record DecodedJWT =
  header :: json
  payload :: json
  signature :: string

definition decodeJwt :: "platform \<Rightarrow> string \<Rightarrow> js_error + DecodedJWT" where
  "decodeJwt P token =
     (let parts = split_on CHR ''.'' token
      in case (truthy (element parts 0), truthy (element parts 1), truthy (element parts 2)) of
           (Some header', Some payload', Some signature') \<Rightarrow>
             (case atob P header' of
                None \<Rightarrow> Inl (Platform ''InvalidCharacterError'')
              | Some headerText \<Rightarrow>
                  (case JSON_parse P headerText of
                     None \<Rightarrow> Inl (Platform ''SyntaxError'')
                   | Some decodedHeader \<Rightarrow>
                       (case atob P payload' of
                          None \<Rightarrow> Inl (Platform ''InvalidCharacterError'')
                        | Some payloadText \<Rightarrow>
                            (case JSON_parse P payloadText of
                               None \<Rightarrow> Inl (Platform ''SyntaxError'')
                             | Some decodedPayload \<Rightarrow>
                                 Inr \<lparr>header = decodedHeader, payload = decodedPayload,
                                      signature = signature'\<rparr>))))
         | _ \<Rightarrow> Inl Invalid_JWT_token_format)"

text \<open>
  \<^verbatim>\<open>decodeJwt(idToken).payload.nonce\<close>: the member of an object, \<open>undefined\<close> when the
  object has none or the payload is a number, a string, a boolean or an array; reading
  a property of \<open>null\<close> throws a \<open>TypeError\<close>.
\<close>

definition getNonce :: "platform \<Rightarrow> string \<Rightarrow> js_error + json option" where
  "getNonce P idToken' =
     (case decodeJwt P idToken' of
        Inl e \<Rightarrow> Inl e
      | Inr decoded \<Rightarrow>
          (case payload decoded of
             JObject members \<Rightarrow> Inr (map_of members ''nonce'')
           | JNull \<Rightarrow> Inl (Platform ''TypeError'')
           | _ \<Rightarrow> Inr None))"

definition isTokenExpired :: "int \<Rightarrow> world \<Rightarrow> bool \<times> world" where
  "isTokenExpired expiresAt' w = (let (now, w1) = Date_now w in (now \<ge> expiresAt', w1))"

definition calculateExpiresAt :: "int \<Rightarrow> world \<Rightarrow> int \<times> world" where
  "calculateExpiresAt expiresIn w =
     (let (now, w1) = Date_now w
      in (number_add w1 now (number_multiply w1 expiresIn 1000), w1))"

subsection \<open>\<^verbatim>\<open>customer-session.ts\<close>\<close>

record CustomerTokens =
  accessToken :: string
  refreshToken :: string
  idToken :: string
  expiresAt :: int

text \<open>
  \<^verbatim>\<open>if (!accessToken || !refreshToken || !idToken || !expiresAt) return null\<close>: a string is
  falsy when absent or empty, the number when absent or \<open>0\<close>.
\<close>

definition getCustomerTokens :: "session \<Rightarrow> CustomerTokens option" where
  "getCustomerTokens session =
     (case (truthy (customer_access_token session), truthy (customer_refresh_token session),
            truthy (customer_id_token session), customer_expires_at session) of
        (Some a, Some r, Some i, Some e) \<Rightarrow>
          if e = 0 then None
          else Some \<lparr>accessToken = a, refreshToken = r, idToken = i, expiresAt = e\<rparr>
      | _ \<Rightarrow> None)"

definition isCustomerAuthenticated :: "session \<Rightarrow> world \<Rightarrow> bool \<times> world" where
  "isCustomerAuthenticated session w =
     (case getCustomerTokens session of
        None \<Rightarrow> (False, w)
      | Some tokens \<Rightarrow>
          (let (expired, w1) = isTokenExpired (expiresAt tokens) w in (\<not> expired, w1)))"

definition clearCustomerSession :: "session \<Rightarrow> session" where
  "clearCustomerSession session =
     session\<lparr>customer_access_token := None, customer_refresh_token := None,
             customer_id_token := None, customer_expires_at := None,
             customer_code_verifier := None, customer_state := None,
             customer_nonce := None\<rparr>"

text \<open>
  The two awaited calls of the \<open>try\<close> block of \<open>getValidAccessToken\<close>: the refresh
  attempt. It fails when either call throws.
\<close>

definition refresh_attempt ::
  "string \<Rightarrow> string \<Rightarrow> string \<Rightarrow> world \<Rightarrow> (js_error + RefreshedTokenResponse) \<times> world" where
  "refresh_attempt shopDomain clientId refreshToken' w =
     (case discoverAuthEndpoints shopDomain w of
        (Inl e, w1) \<Rightarrow> (Inl e, w1)
      | (Inr authConfig, w1) \<Rightarrow>
          refreshAccessToken (token_endpoint authConfig) clientId refreshToken' w1)"

text \<open>
  \<open>getValidAccessToken\<close> returns the token or \<open>null\<close>, the session as it leaves it, and
  the world. The \<open>catch\<close> covers every exception of the \<open>try\<close> block, so the function
  itself throws nothing.
\<close>

definition getValidAccessToken ::
  "session \<Rightarrow> string \<Rightarrow> string \<Rightarrow> world \<Rightarrow> string option \<times> session \<times> world" where
  "getValidAccessToken session shopDomain clientId w =
     (case getCustomerTokens session of
        None \<Rightarrow> (None, session, w)
      | Some tokens \<Rightarrow>
          (let (expired, w1) = isTokenExpired (expiresAt tokens) w
           in if \<not> expired then (Some (accessToken tokens), session, w1)
              else (case refresh_attempt shopDomain clientId (refreshToken tokens) w1 of
                      (Inr newTokens, w2) \<Rightarrow>
                        (let session1 = session\<lparr>customer_access_token := Some (access_token newTokens)\<rparr>;
                             session2 = session1\<lparr>customer_refresh_token := Some (refresh_token newTokens)\<rparr>;
                             (now, w3) = Date_now w2;
                             session3 = session2\<lparr>customer_expires_at :=
                               Some (number_add w3 now
                                       (number_multiply w3 (expires_in newTokens) 1000))\<rparr>
                         in (Some (access_token newTokens), session3, w3))
                    | (Inl error, w2) \<Rightarrow> (None, clearCustomerSession session, w2))))"

subsection \<open>\<^verbatim>\<open>customer-guards.ts\<close>\<close>

definition getAuthenticatedToken ::
  "env \<Rightarrow> session \<Rightarrow> world \<Rightarrow> (js_error + string) \<times> session \<times> world" where
  "getAuthenticatedToken env session w =
     (let shopDomain = PUBLIC_STORE_DOMAIN env;
          clientId = or_else (PUBLIC_CUSTOMER_ACCOUNT_API_CLIENT_ID env) (CUSTOMER_ACCOUNT_CLIENT_ID env)
      in case (truthy shopDomain, truthy clientId) of
           (Some shopDomain', Some clientId') \<Rightarrow>
             (let (accessToken', session1, w1) = getValidAccessToken session shopDomain' clientId' w
              in case truthy accessToken' of
                   None \<Rightarrow> (Inl (Redirect_thrown ''/account/authorize''), session1, w1)
                 | Some tok \<Rightarrow> (Inr tok, session1, w1))
         | _ \<Rightarrow> (Inl PUBLIC_STORE_DOMAIN_and_CUSTOMER_ACCOUNT_CLIENT_ID_must_be_set, session, w))"

text \<open>
  \<open>optionalAuth\<close>. Its \<open>try\<close> holds the call of \<open>getValidAccessToken\<close> alone, which throws
  nothing, so the \<open>catch\<close> has no case here.
\<close>

definition optionalAuth :: "env \<Rightarrow> session \<Rightarrow> world \<Rightarrow> string option \<times> session \<times> world" where
  "optionalAuth env session w =
     (let shopDomain = PUBLIC_STORE_DOMAIN env;
          clientId = or_else (PUBLIC_CUSTOMER_ACCOUNT_API_CLIENT_ID env) (CUSTOMER_ACCOUNT_CLIENT_ID env)
      in case (truthy shopDomain, truthy clientId) of
           (Some shopDomain', Some clientId') \<Rightarrow>
             (let (authenticated, w1) = isCustomerAuthenticated session w
              in if \<not> authenticated then (None, session, w1)
                 else getValidAccessToken session shopDomain' clientId' w1)
         | _ \<Rightarrow> (None, session, w))"

subsection \<open>\<^verbatim>\<open>routes/account.authorize.callback.tsx\<close>\<close>

text \<open>
  \<^verbatim>\<open>url.match(/\/(\d+)$/)\<close>, the first group: the digits at the end of the string, when
  there is one at least and a slash stands before them.
\<close>

definition match_shop_id :: "string \<Rightarrow> string option" where
  "match_shop_id str =
     (let digits = takeWhile (\<lambda>ch. ch \<in> set ''0123456789'') (rev str);
          preceding = dropWhile (\<lambda>ch. ch \<in> set ''0123456789'') (rev str)
      in if digits \<noteq> [] \<and> take 1 preceding = ''/'' then Some (rev digits) else None)"

definition determine_shop_id :: "env \<Rightarrow> string option" where
  "determine_shop_id env =
     (let shopId = SHOP_ID env
      in case (truthy shopId, truthy (PUBLIC_CUSTOMER_ACCOUNT_API_URL env)) of
           (None, Some api_url) \<Rightarrow>
             (case truthy (match_shop_id api_url) of Some m \<Rightarrow> Some m | None \<Rightarrow> shopId)
         | _ \<Rightarrow> shopId)"

text \<open>
  The loader up to its \<open>try\<close> block. It touches neither the session nor the network:
  the result is what the loader returns or throws there (\<open>Inl\<close>), or the values the
  \<open>try\<close> block goes on with: \<open>code\<close>, \<open>codeVerifier\<close>, \<open>clientId\<close> and \<open>shopId\<close>.
\<close>

definition callback_checks ::
  "request \<Rightarrow> env \<Rightarrow> session
     \<Rightarrow> (js_error + route_response) + (string \<times> string \<times> string \<times> string)" where
  "callback_checks request env session =
     (let code = map_of (searchParams request) ''code'';
          state = map_of (searchParams request) ''state'';
          error = map_of (searchParams request) ''error''
      in case truthy error of
           Some error' \<Rightarrow> Inl (Inr (Redirect (''/account/login?error='' @ error') None))
         | None \<Rightarrow>
      (case (truthy code, truthy state) of
           (Some code', Some state') \<Rightarrow>
             (let storedState = customer_state session
              in if Some state' \<noteq> storedState
                 then Inl (Inr (Redirect ''/account/login?error=invalid_state'' None))
                 else
             (case truthy (customer_code_verifier session) of
                None \<Rightarrow> Inl (Inr (Redirect ''/account/login?error=missing_verifier'' None))
              | Some codeVerifier \<Rightarrow>
             (let shopDomain = PUBLIC_STORE_DOMAIN env;
                  clientId = or_else (PUBLIC_CUSTOMER_ACCOUNT_API_CLIENT_ID env)
                               (CUSTOMER_ACCOUNT_CLIENT_ID env)
              in case (truthy shopDomain, truthy clientId) of
                   (Some shopDomain', Some clientId') \<Rightarrow>
                     (case truthy (determine_shop_id env) of
                        None \<Rightarrow> Inl (Inl SHOP_ID_could_not_be_determined)
                      | Some shopId \<Rightarrow> Inr (code', codeVerifier, clientId', shopId))
                 | _ \<Rightarrow> Inl (Inl Required_environment_variables_not_set))))
         | _ \<Rightarrow> Inl (Inr (Redirect ''/account/login?error=invalid_callback'' None))))"

text \<open>
  The \<open>try\<close> block and its \<open>catch\<close>. \<open>nonce_ok\<close> is the outcome of the nonce check:
  \<open>Inl\<close> when \<open>getNonce\<close> throws, else whether the check lets the handler go on.
\<close>

definition callback_try ::
  "platform \<Rightarrow> string \<Rightarrow> session \<Rightarrow> string \<times> string \<times> string \<times> string \<Rightarrow> world
     \<Rightarrow> (js_error + route_response) \<times> session \<times> world" where
  "callback_try P origin' session vals w =
     (case vals of (code, codeVerifier, clientId, shopId) \<Rightarrow>
      (let failed = Inr (Redirect ''/account/login?error=token_exchange_failed'' None);
           tokenEndpoint = ''https://shopify.com/authentication/'' @ shopId @ ''/oauth/token'';
           redirectUri = origin' @ ''/account/authorize/callback''
       in case exchangeCodeForToken tokenEndpoint clientId redirectUri code codeVerifier w of
            (Inl error, w1) \<Rightarrow> (failed, session, w1)
          | (Inr tokenResponse, w1) \<Rightarrow>
              (let storedNonce = customer_nonce session;
                   nonce_ok =
                     (case truthy storedNonce of
                        None \<Rightarrow> Inr True
                      | Some storedNonce' \<Rightarrow>
                          (case getNonce P (id_token tokenResponse) of
                             Inl error \<Rightarrow> Inl error
                           | Inr tokenNonce \<Rightarrow> Inr (tokenNonce = Some (JString storedNonce'))))
               in case nonce_ok of
                    Inl error \<Rightarrow> (failed, session, w1)
                  | Inr False \<Rightarrow>
                      (Inr (Redirect ''/account/login?error=invalid_nonce'' None), session, w1)
                  | Inr True \<Rightarrow>
                      (let (expiresAt', w2) = calculateExpiresAt (expires_in tokenResponse) w1;
                           session1 = session\<lparr>customer_access_token := Some (access_token tokenResponse)\<rparr>;
                           session2 = session1\<lparr>customer_refresh_token := Some (refresh_token tokenResponse)\<rparr>;
                           session3 = session2\<lparr>customer_id_token := Some (id_token tokenResponse)\<rparr>;
                           session4 = session3\<lparr>customer_expires_at := Some expiresAt'\<rparr>;
                           session5 = session4\<lparr>customer_code_verifier := None\<rparr>;
                           session6 = session5\<lparr>customer_state := None\<rparr>;
                           session7 = session6\<lparr>customer_nonce := None\<rparr>
                       in case commit P session7 of
                            None \<Rightarrow> (failed, session7, w2)
                          | Some cookie \<Rightarrow> (Inr (Redirect ''/account'' (Some cookie)), session7, w2)))))"

definition callback_loader ::
  "platform \<Rightarrow> request \<Rightarrow> env \<Rightarrow> session \<Rightarrow> world
     \<Rightarrow> (js_error + route_response) \<times> session \<times> world" where
  "callback_loader P request env session w =
     (case callback_checks request env session of
        Inl early \<Rightarrow> (early, session, w)
      | Inr vals \<Rightarrow> callback_try P (origin request) session vals w)"

subsection \<open>\<^verbatim>\<open>routes/account.logout.tsx\<close>\<close>

text \<open>
  The loader's \<open>catch\<close>, and its last statement, commit the session and redirect home;
  in the \<open>catch\<close> a failing \<open>commit\<close> is thrown by the loader.
\<close>

definition logout_home ::
  "platform \<Rightarrow> session \<Rightarrow> world \<Rightarrow> (js_error + route_response) \<times> session \<times> world" where
  "logout_home P session w =
     (case commit P session of
        None \<Rightarrow> (Inl (Platform ''commit''), session, w)
      | Some cookie \<Rightarrow> (Inr (Redirect ''/'' (Some cookie)), session, w))"

definition logout_loader ::
  "platform \<Rightarrow> request \<Rightarrow> env \<Rightarrow> session \<Rightarrow> world
     \<Rightarrow> (js_error + route_response) \<times> session \<times> world" where
  "logout_loader P request env session w =
     (case truthy (PUBLIC_STORE_DOMAIN env) of
        None \<Rightarrow> (Inl PUBLIC_STORE_DOMAIN_is_not_set, session, w)
      | Some shopDomain \<Rightarrow>
          (let idToken' = customer_id_token session;
               session1 = session\<lparr>customer_access_token := None\<rparr>;
               session2 = session1\<lparr>customer_refresh_token := None\<rparr>;
               session3 = session2\<lparr>customer_id_token := None\<rparr>;
               session4 = session3\<lparr>customer_expires_at := None\<rparr>
           in case truthy idToken' of
                Some idToken'' \<Rightarrow>
                  (case discoverAuthEndpoints shopDomain w of
                     (Inl error, w1) \<Rightarrow> logout_home P session4 w1
                   | (Inr authConfig, w1) \<Rightarrow>
                       (let postLogoutRedirectUri = origin request @ ''/''
                        in case buildLogoutUrl P (end_session_endpoint authConfig) idToken''
                                  postLogoutRedirectUri of
                             Inl error \<Rightarrow> logout_home P session4 w1
                           | Inr logoutUrl \<Rightarrow>
                               (case commit P session4 of
                                  None \<Rightarrow> logout_home P session4 w1
                                | Some cookie \<Rightarrow>
                                    (Inr (Redirect logoutUrl (Some cookie)), session4, w1))))
              | None \<Rightarrow>
                  (case commit P session4 of
                     None \<Rightarrow> logout_home P session4 w
                   | Some cookie \<Rightarrow> (Inr (Redirect ''/'' (Some cookie)), session4, w))))"

subsection \<open>Auxiliary definitions and example data\<close>

text \<open>
  The two character replacements of \<open>base64UrlEncode\<close> as one function, and the whole
  of its post-processing of \<open>btoa\<close>'s result.
\<close>

definition url_safe :: "char \<Rightarrow> char" where
  "url_safe ch =
     (let ch1 = (if ch = CHR ''+'' then CHR ''-'' else ch)
      in if ch1 = CHR ''/'' then CHR ''_'' else ch1)"

definition strip_pad :: "string \<Rightarrow> string" where
  "strip_pad s = filter (\<lambda>ch. ch \<noteq> CHR ''='') (map url_safe s)"

text \<open>
  Data for the concrete runs below. The platform is given on the texts that occur in
  them: \<open>atob\<close> of \<open>e30\<close> is \<open>{}\<close> and \<open>atob\<close> of \<open>eyJub25jZSI6Im4yIn0\<close> is the JSON text
  of an object whose \<open>nonce\<close> is \<open>n2\<close>; \<open>JSON.parse\<close> of these two texts; the logout URL
  for the one end-session endpoint; and a \<open>commit\<close> that succeeds.
\<close>

definition example_platform :: platform where
  "example_platform =
     \<lparr>atob = map_of [(''e30'', ''{}''), (''eyJub25jZSI6Im4yIn0'', ''{\"nonce\":\"n2\"}'')],
      JSON_parse = map_of [(''{}'', JObject []),
                           (''{\"nonce\":\"n2\"}'', JObject [(''nonce'', JString ''n2'')])],
      URL_with_params =
        (\<lambda>base ps.
           if base = ''https://shopify.com/authentication/91454472574/logout'' \<and>
              ps = [(''id_token_hint'', ''H.P.S''),
                    (''post_logout_redirect_uri'', ''https://shop.example/'')]
           then Some (''https://shopify.com/authentication/91454472574/logout''
                      @ ''?id_token_hint=H.P.S''
                      @ ''&post_logout_redirect_uri=https%3A%2F%2Fshop.example%2F'')
           else None),
      commit = (\<lambda>session. Some ''session=committed'')\<rparr>"

definition example_env :: env where
  "example_env =
     \<lparr>PUBLIC_STORE_DOMAIN = Some ''shop.example'',
      PUBLIC_CUSTOMER_ACCOUNT_API_CLIENT_ID = None,
      CUSTOMER_ACCOUNT_CLIENT_ID = Some ''client-1'',
      SHOP_ID = None,
      PUBLIC_CUSTOMER_ACCOUNT_API_URL = Some ''https://shopify.com/91454472574''\<rparr>"

text \<open>
  The rounding of the example world's arithmetic: the double nearest to an integer,
  ties going to the even significand of 53 bits. \<open>double_ulp m\<close> is the distance between
  neighbouring doubles at the magnitude \<open>m\<close>: 1 below \<open>2\<^sup>5\<^sup>3\<close>, and doubling with each
  further bit. (It stands for the engine's result for magnitudes below
  \<open>2\<^sup>1\<^sup>0\<^sup>2\<^sup>4 - 2\<^sup>9\<^sup>7\<^sup>0\<close>; from there on the engine gives an infinity.)
\<close>

fun double_ulp :: "nat \<Rightarrow> nat" where
  "double_ulp m = (if m < 9007199254740992 then 1 else 2 * double_ulp (m div 2))"

declare double_ulp.simps [simp del]

definition nearest_double :: "int \<Rightarrow> int" where
  "nearest_double x =
     (let m = nat \<bar>x\<bar>;
          q = m div double_ulp m;
          r = m mod double_ulp m;
          n = (if 2 * r < double_ulp m \<or> (2 * r = double_ulp m \<and> even q)
               then q * double_ulp m
               else (q + 1) * double_ulp m)
      in if x < 0 then - int n else int n)"

text \<open>
  A world whose servers accept every request: the token endpoint answers a code
  exchange with the tokens \<open>A\<close>, \<open>R\<close> and an identity token whose nonce is \<open>n2\<close>, and a
  refresh with \<open>A2\<close> and \<open>R2\<close>. The clock starts at 1000 and advances by one at each
  reading.
\<close>

definition example_world :: world where
  "example_world =
     \<lparr>openid_configuration = (\<lambda>req. Some
        \<lparr>ok = True, status = 200, statusText = ''OK'', response_text = [],
         response_json = Some
           \<lparr>authorization_endpoint = ''https://shopify.com/authentication/91454472574/oauth/authorize'',
            token_endpoint = ''https://shopify.com/authentication/91454472574/oauth/token'',
            end_session_endpoint = ''https://shopify.com/authentication/91454472574/logout'',
            jwks_uri = ''https://shopify.com/authentication/91454472574/.well-known/jwks.json'',
            issuer = ''https://shopify.com/authentication/91454472574''\<rparr>\<rparr>),
      token_authorization_code = (\<lambda>req. Some
        \<lparr>ok = True, status = 200, statusText = ''OK'', response_text = [],
         response_json = Some
           \<lparr>access_token = ''A'', expires_in = 3600, refresh_token = ''R'',
            id_token = ''e30.eyJub25jZSI6Im4yIn0.S''\<rparr>\<rparr>),
      token_refresh = (\<lambda>req. Some
        \<lparr>ok = True, status = 200, statusText = ''OK'', response_text = [],
         response_json = Some \<lparr>access_token = ''A2'', expires_in = 3600, refresh_token = ''R2''\<rparr>\<rparr>),
      clock = (\<lambda>n. 1000 + int n),
      rounded_sum = (\<lambda>a b. nearest_double (a + b)),
      rounded_product = (\<lambda>a b. nearest_double (a * b)),
      ticks = 0,
      requests = []\<rparr>"

text \<open>The same world, except that the token endpoint answers a refresh with HTTP 400.\<close>

definition rejecting_world :: world where
  "rejecting_world =
     example_world\<lparr>token_refresh := (\<lambda>req. Some
        \<lparr>ok = False, status = 400, statusText = ''Bad Request'', response_text = ''invalid_grant'',
         response_json = None\<rparr>)\<rparr>"

text \<open>
  The same world, except that a refresh is answered with a lifetime of 9007199254740
  seconds: in milliseconds, added to the clock's reading 1001, beyond \<open>2\<^sup>5\<^sup>3\<close>.
\<close>

definition long_lived_world :: world where
  "long_lived_world =
     example_world\<lparr>token_refresh := (\<lambda>req. Some
        \<lparr>ok = True, status = 200, statusText = ''OK'', response_text = [],
         response_json = Some
           \<lparr>access_token = ''A2'', expires_in = 9007199254740, refresh_token = ''R2''\<rparr>\<rparr>)\<rparr>"

text \<open>A session in the middle of an authorization, and one that holds a token set.\<close>

definition callback_session :: session where
  "callback_session =
     \<lparr>customer_code_verifier = Some ''xyz'', customer_state = Some ''s1'',
      customer_nonce = Some ''n1'', customer_access_token = None,
      customer_refresh_token = None, customer_id_token = None, customer_expires_at = None\<rparr>"

definition stored_session :: "int \<Rightarrow> session" where
  "stored_session e =
     \<lparr>customer_code_verifier = Some ''xyz'', customer_state = Some ''s1'',
      customer_nonce = Some ''n1'', customer_access_token = Some ''A'',
      customer_refresh_token = Some ''R'', customer_id_token = Some ''H.P.S'',
      customer_expires_at = Some e\<rparr>"

definition example_request :: "(string \<times> string) list \<Rightarrow> request" where
  "example_request params = \<lparr>origin = ''https://shop.example'', searchParams = params\<rparr>"

section \<open>Properties\<close>

subsection \<open>The PKCE challenge\<close>
lemma alphabets_related:
  "list_all (\<lambda>(ch, ch'). url_safe ch = ch' \<and> ch' \<noteq> CHR ''='') (zip b64_alphabet b64url_alphabet)"
  by (simp add: b64_alphabet_def b64url_alphabet_def url_safe_def)

lemma alphabet_lengths: "length b64_alphabet = 64" "length b64url_alphabet = 64"
  by (simp_all add: b64_alphabet_def b64url_alphabet_def)

lemma url_safe_nth:
  assumes "i < 64"
  shows "url_safe (b64_alphabet ! i) = b64url_alphabet ! i"
    and "b64url_alphabet ! i \<noteq> CHR ''=''"
proof -
  have "i < length (zip b64_alphabet b64url_alphabet)"
    using assms by (simp add: alphabet_lengths)
  then have "(\<lambda>(ch, ch'). url_safe ch = ch' \<and> ch' \<noteq> CHR ''='')
               (zip b64_alphabet b64url_alphabet ! i)"
    using alphabets_related by (simp only: list_all_length)
  then show "url_safe (b64_alphabet ! i) = b64url_alphabet ! i"
    and "b64url_alphabet ! i \<noteq> CHR ''=''"
    using assms by (simp_all add: alphabet_lengths)
qed

lemma strip_pad_simps:
  "strip_pad [] = []"
  "strip_pad (xs @ ys) = strip_pad xs @ strip_pad ys"
  "strip_pad ''='' = []"
  "strip_pad ''=='' = []"
  by (simp_all add: strip_pad_def url_safe_def)

lemma strip_pad_nth:
  "i < 64 \<Longrightarrow> strip_pad (b64_alphabet ! i # s) = b64url_alphabet ! i # strip_pad s"
  by (simp add: strip_pad_def url_safe_nth)

lemma sextet_bounds:
  fixes n :: nat
  assumes "n < 16777216"
  shows "n div 262144 < 64" "n div 4096 mod 64 < 64" "n div 64 mod 64 < 64" "n mod 64 < 64"
  using assms by simp_all

lemma byte_bound: "unat (a :: 8 word) < 256"
  using unsigned_less [of a, where ?'a = nat] by simp

lemma strip_pad_base64_encode:
  "strip_pad (base64_encode b64_alphabet True bytes) = base64_encode b64url_alphabet False bytes"
proof (induction b64_alphabet True bytes rule: base64_encode.induct)
  case 1
  show ?case by (simp add: strip_pad_simps)
next
  case (2 a)
  have "unat a * 65536 < 16777216"
    using byte_bound [of a] by simp
  then show ?case
    by (simp add: Let_def strip_pad_nth strip_pad_simps sextet_bounds)
next
  case (3 a b)
  have "unat a * 65536 + unat b * 256 < 16777216"
    using byte_bound [of a] byte_bound [of b] by simp
  then show ?case
    by (simp add: Let_def strip_pad_nth strip_pad_simps sextet_bounds)
next
  case (4 a b c rest)
  have "unat a * 65536 + unat b * 256 + unat c < 16777216"
    using byte_bound [of a] byte_bound [of b] byte_bound [of c] by simp
  with 4 show ?case
    by (simp add: Let_def strip_pad_nth strip_pad_simps sextet_bounds)
qed

lemma of_char_fromCharCode: "of_char (char_of (unat b)) = (b :: 8 word)"
proof -
  have "(of_char (char_of (unat b)) :: 8 word) = of_nat (of_char (char_of (unat b)))"
    by (simp only: of_nat_of_char)
  also have "\<dots> = of_nat (unat b mod 256)"
    by (simp only: of_char_of)
  also have "\<dots> = b"
    using byte_bound [of b] by simp
  finally show ?thesis .
qed

lemma base64UrlEncode_bytes:
  "base64UrlEncode (convertBufferToString bytes) = base64url_nopad bytes"
proof -
  have "map of_char (convertBufferToString bytes) = bytes"
    by (simp add: convertBufferToString_def of_char_fromCharCode comp_def)
  moreover have "base64UrlEncode str = strip_pad (btoa str)" for str
    by (simp add: base64UrlEncode_def strip_pad_def url_safe_def [abs_def] Let_def comp_def)
  ultimately show ?thesis
    by (simp add: btoa_def base64url_nopad_def strip_pad_base64_encode)
qed

text \<open>
  Claim C5. For every verifier string, \<open>generateCodeChallenge\<close> returns the base64url
  encoding, without padding, of the SHA-256 digest of the UTF-8 bytes of the verifier.
\<close>

theorem generateCodeChallenge_base64url_sha256:
  "generateCodeChallenge SHA256_digest TextEncoder_encode codeVerifier =
     base64url_nopad (SHA256_digest (TextEncoder_encode codeVerifier))"
  by (simp add: generateCodeChallenge_def base64UrlEncode_bytes)


subsection \<open>Identity token decoding\<close>

lemma list_shape_cases:
  obtains "xs = []" | a where "xs = [a]" | a b where "xs = [a, b]"
  | a b c rest where "xs = a # b # c # rest"
  by (cases xs rule: remdups_adj.cases; cases "tl (tl xs)"; simp)

text \<open>
  Claim C7, as amended. \<open>decodeJwt\<close> fails with the malformed-token error exactly when
  one of the first three segments of the token, split at the dots, is missing or empty.
  So every token with fewer than three segments fails with it, and so does every token
  with an empty segment among the first three; segments after the third are ignored.
\<close>

theorem decodeJwt_malformed_iff_first_three_segments:
  "decodeJwt P token = Inl Invalid_JWT_token_format \<longleftrightarrow>
     length (split_on CHR ''.'' token) < 3 \<or> [] \<in> set (take 3 (split_on CHR ''.'' token))"
proof (cases "split_on CHR ''.'' token" rule: list_shape_cases)
  case 1
  then show ?thesis by (simp add: decodeJwt_def element_def truthy_def)
next
  case (2 a)
  then show ?thesis by (simp add: decodeJwt_def element_def truthy_def split: option.splits)
next
  case (3 a b)
  then show ?thesis by (simp add: decodeJwt_def element_def truthy_def split: option.splits)
next
  case (4 a b c rest)
  then show ?thesis
    by (auto simp add: decodeJwt_def element_def truthy_def split: option.splits)
qed

theorem decodeJwt_malformed_iff_first_three_segments_witness:
  "length (split_on CHR ''.'' ''e30.e30'') = 2 \<and>
   decodeJwt example_platform ''e30.e30'' = Inl Invalid_JWT_token_format"
  using decodeJwt_malformed_iff_first_three_segments [of example_platform "''e30.e30''"]
  by simp

text \<open>
  The claim as stated fails: a token of four non-empty segments is decoded, from its
  first three.
\<close>

theorem decodeJwt_four_segments_accepted:
  "length (split_on CHR ''.'' ''e30.e30.c.d'') = 4 \<and>
   decodeJwt example_platform ''e30.e30.c.d'' =
     Inr \<lparr>header = JObject [], payload = JObject [], signature = ''c''\<rparr>"
  by (simp add: decodeJwt_def element_def truthy_def example_platform_def)

subsection \<open>The token store\<close>

lemma getCustomerTokens_stored_session:
  "e \<noteq> 0 \<Longrightarrow> getCustomerTokens (stored_session e) =
     Some \<lparr>accessToken = ''A'', refreshToken = ''R'', idToken = ''H.P.S'', expiresAt = e\<rparr>"
  by (simp add: getCustomerTokens_def stored_session_def truthy_def)

text \<open>
  Claim C4. For a session that holds a complete token set, \<open>isCustomerAuthenticated\<close>
  is true exactly when the reading of \<open>Date.now()\<close> is strictly less than \<open>expiresAt\<close>;
  at equality the token counts as expired.
\<close>

theorem isCustomerAuthenticated_iff_before_expiry:
  assumes "getCustomerTokens session = Some tokens"
  shows "fst (isCustomerAuthenticated session w) \<longleftrightarrow> clock w (ticks w) < expiresAt tokens"
  using assms
  by (auto simp add: isCustomerAuthenticated_def isTokenExpired_def Date_now_def)

text \<open>The boundary: the clock reads 1000 and the token set expires at 1000.\<close>

theorem isCustomerAuthenticated_iff_before_expiry_witness:
  "getCustomerTokens (stored_session 1000) =
     Some \<lparr>accessToken = ''A'', refreshToken = ''R'', idToken = ''H.P.S'', expiresAt = 1000\<rparr> \<and>
   clock example_world (ticks example_world) = 1000 \<and>
   \<not> fst (isCustomerAuthenticated (stored_session 1000) example_world)"
proof -
  have t: "getCustomerTokens (stored_session 1000) =
     Some \<lparr>accessToken = ''A'', refreshToken = ''R'', idToken = ''H.P.S'', expiresAt = 1000\<rparr>"
    by (simp add: getCustomerTokens_stored_session)
  show ?thesis
    using t isCustomerAuthenticated_iff_before_expiry [OF t, of example_world]
    by (simp add: example_world_def)
qed

lemma getValidAccessToken_unexpired:
  assumes "getCustomerTokens session = Some tokens"
    and "clock w (ticks w) < expiresAt tokens"
  shows "getValidAccessToken session shopDomain clientId w =
           (Some (accessToken tokens), session, w\<lparr>ticks := Suc (ticks w)\<rparr>)"
  using assms by (simp add: getValidAccessToken_def isTokenExpired_def Date_now_def)

lemma optionalAuth_unexpired:
  assumes "getCustomerTokens session = Some tokens"
    and "clock w (ticks w) < expiresAt tokens"
    and "clock w (Suc (ticks w)) < expiresAt tokens"
  shows "optionalAuth env session w =
           (if truthy (PUBLIC_STORE_DOMAIN env) = None \<or>
               truthy (or_else (PUBLIC_CUSTOMER_ACCOUNT_API_CLIENT_ID env)
                         (CUSTOMER_ACCOUNT_CLIENT_ID env)) = None
            then (None, session, w)
            else (Some (accessToken tokens), session, w\<lparr>ticks := Suc (Suc (ticks w))\<rparr>))"
  using assms
  by (simp add: optionalAuth_def isCustomerAuthenticated_def isTokenExpired_def Date_now_def
      getValidAccessToken_unexpired split: option.splits prod.splits)

text \<open>
  Claim C8. (1) For a session that holds a token set, unexpired at the reading of the
  clock, \<open>getValidAccessToken\<close> returns the stored access token, leaves the session as
  it is and issues no network call. (2) For a session that holds no token set it
  returns \<open>null\<close> at once: the session and the world are untouched. (3) When the token
  set is unexpired at the four readings of the clock that two calls of \<open>optionalAuth\<close>
  take, the second call issues no network call (and returns what the first returned).
\<close>

theorem getValidAccessToken_cached_without_network:
  "(\<forall>tokens. getCustomerTokens session = Some tokens \<and> clock w (ticks w) < expiresAt tokens \<longrightarrow>
      fst (getValidAccessToken session shopDomain clientId w) = Some (accessToken tokens) \<and>
      fst (snd (getValidAccessToken session shopDomain clientId w)) = session \<and>
      requests (snd (snd (getValidAccessToken session shopDomain clientId w))) = requests w) \<and>
   (getCustomerTokens session = None \<longrightarrow>
      getValidAccessToken session shopDomain clientId w = (None, session, w)) \<and>
   (\<forall>tokens. getCustomerTokens session = Some tokens \<and>
        (\<forall>i<4. clock w (ticks w + i) < expiresAt tokens) \<longrightarrow>
      (case optionalAuth env session w of
         (first, session1, w1) \<Rightarrow>
           (case optionalAuth env session1 w1 of
              (second, session2, w2) \<Rightarrow> requests w2 = requests w1 \<and> second = first)))"
proof (intro conjI allI impI)
  fix tokens
  assume "getCustomerTokens session = Some tokens \<and> clock w (ticks w) < expiresAt tokens"
  then have "getValidAccessToken session shopDomain clientId w =
           (Some (accessToken tokens), session, w\<lparr>ticks := Suc (ticks w)\<rparr>)"
    by (simp add: getValidAccessToken_unexpired)
  then show "fst (getValidAccessToken session shopDomain clientId w) = Some (accessToken tokens)"
    and "fst (snd (getValidAccessToken session shopDomain clientId w)) = session"
    and "requests (snd (snd (getValidAccessToken session shopDomain clientId w))) = requests w"
    by simp_all
next
  assume "getCustomerTokens session = None"
  then show "getValidAccessToken session shopDomain clientId w = (None, session, w)"
    by (simp add: getValidAccessToken_def)
next
  fix tokens
  assume a: "getCustomerTokens session = Some tokens \<and>
        (\<forall>i<4. clock w (ticks w + i) < expiresAt tokens)"
  then have t: "getCustomerTokens session = Some tokens"
    and u: "\<And>i. i < 4 \<Longrightarrow> clock w (ticks w + i) < expiresAt tokens"
    by simp_all
  have r: "clock w (ticks w) < expiresAt tokens" "clock w (Suc (ticks w)) < expiresAt tokens"
    "clock w (Suc (Suc (ticks w))) < expiresAt tokens"
    "clock w (Suc (Suc (Suc (ticks w)))) < expiresAt tokens"
    using u [of 0] u [of 1] u [of 2] u [of 3] by (simp_all add: numeral_2_eq_2 numeral_3_eq_3)
  let ?w1 = "w\<lparr>ticks := Suc (Suc (ticks w))\<rparr>"
  have call: "optionalAuth env session w' =
           (if truthy (PUBLIC_STORE_DOMAIN env) = None \<or>
               truthy (or_else (PUBLIC_CUSTOMER_ACCOUNT_API_CLIENT_ID env)
                         (CUSTOMER_ACCOUNT_CLIENT_ID env)) = None
            then (None, session, w')
            else (Some (accessToken tokens), session, w'\<lparr>ticks := Suc (Suc (ticks w'))\<rparr>))"
    if "w' = w \<or> w' = ?w1" for w'
    using that t r by (auto simp add: optionalAuth_unexpired)
  show "case optionalAuth env session w of
         (first, session1, w1) \<Rightarrow>
           (case optionalAuth env session1 w1 of
              (second, session2, w2) \<Rightarrow> requests w2 = requests w1 \<and> second = first)"
    by (simp add: call)
qed

theorem getValidAccessToken_cached_without_network_witness:
  "getCustomerTokens (stored_session 5000) =
     Some \<lparr>accessToken = ''A'', refreshToken = ''R'', idToken = ''H.P.S'', expiresAt = 5000\<rparr> \<and>
   clock example_world (ticks example_world + 3) = 1003 \<and>
   fst (getValidAccessToken (stored_session 5000) ''shop.example'' ''client-1'' example_world) = Some ''A'' \<and>
   requests (snd (snd (getValidAccessToken (stored_session 5000) ''shop.example'' ''client-1''
                         example_world))) = [] \<and>
   (case optionalAuth example_env (stored_session 5000) example_world of
      (first, session1, w1) \<Rightarrow>
        (case optionalAuth example_env session1 w1 of
           (second, session2, w2) \<Rightarrow> requests w2 = requests w1 \<and> second = first)) \<and>
   getCustomerTokens callback_session = None \<and>
   getValidAccessToken callback_session ''shop.example'' ''client-1'' example_world =
     (None, callback_session, example_world)"
proof -
  let ?t = "\<lparr>accessToken = ''A'', refreshToken = ''R'', idToken = ''H.P.S'', expiresAt = 5000\<rparr>"
  have t: "getCustomerTokens (stored_session 5000) = Some ?t"
    by (simp add: getCustomerTokens_stored_session)
  have u: "\<forall>i<4. clock example_world (ticks example_world + i) < 5000"
    by (simp add: example_world_def)
  have n: "getCustomerTokens callback_session = None"
    by (simp add: getCustomerTokens_def callback_session_def truthy_def)
  show ?thesis
    using t u n
      getValidAccessToken_cached_without_network
        [of "stored_session 5000" example_world "''shop.example''" "''client-1''" example_env]
      getValidAccessToken_cached_without_network
        [of callback_session example_world "''shop.example''" "''client-1''" example_env]
    by (simp add: example_world_def)
qed

text \<open>
  Claim C3. For a session that holds an expired token set, when the refresh attempt
  fails, \<open>getValidAccessToken\<close> returns \<open>null\<close> and leaves a session in which all seven
  keys are unset.
\<close>

theorem getValidAccessToken_refresh_failure_clears_session:
  assumes "getCustomerTokens session = Some tokens"
    and "expiresAt tokens \<le> clock w (ticks w)"
    and "fst (refresh_attempt shopDomain clientId (refreshToken tokens) (snd (Date_now w))) = Inl e"
  shows "fst (getValidAccessToken session shopDomain clientId w) = None \<and>
         fst (snd (getValidAccessToken session shopDomain clientId w)) =
           \<lparr>customer_code_verifier = None, customer_state = None, customer_nonce = None,
            customer_access_token = None, customer_refresh_token = None,
            customer_id_token = None, customer_expires_at = None\<rparr>"
  using assms
  by (auto simp add: getValidAccessToken_def isTokenExpired_def Date_now_def clearCustomerSession_def
      split: prod.splits sum.splits)

text \<open>
  The scenario of the specification: the token set expired 10 ms ago and the refresh
  endpoint answers with HTTP 400.
\<close>

theorem getValidAccessToken_refresh_failure_clears_session_witness:
  "getCustomerTokens (stored_session 990) =
     Some \<lparr>accessToken = ''A'', refreshToken = ''R'', idToken = ''H.P.S'', expiresAt = 990\<rparr> \<and>
   clock rejecting_world (ticks rejecting_world) = 1000 \<and>
   fst (refresh_attempt ''shop.example'' ''client-1'' ''R'' (snd (Date_now rejecting_world)))
     = Inl (Token_refresh_failed 400 ''invalid_grant'') \<and>
   fst (getValidAccessToken (stored_session 990) ''shop.example'' ''client-1'' rejecting_world) = None \<and>
   fst (snd (getValidAccessToken (stored_session 990) ''shop.example'' ''client-1'' rejecting_world)) =
           \<lparr>customer_code_verifier = None, customer_state = None, customer_nonce = None,
            customer_access_token = None, customer_refresh_token = None,
            customer_id_token = None, customer_expires_at = None\<rparr>"
proof -
  let ?t = "\<lparr>accessToken = ''A'', refreshToken = ''R'', idToken = ''H.P.S'', expiresAt = 990\<rparr>"
  have t: "getCustomerTokens (stored_session 990) = Some ?t"
    by (simp add: getCustomerTokens_stored_session)
  have x: "expiresAt ?t \<le> clock rejecting_world (ticks rejecting_world)"
    by (simp add: rejecting_world_def example_world_def)
  have r: "fst (refresh_attempt ''shop.example'' ''client-1'' (refreshToken ?t)
                  (snd (Date_now rejecting_world)))
     = Inl (Token_refresh_failed 400 ''invalid_grant'')"
    by (simp add: refresh_attempt_def discoverAuthEndpoints_def refreshAccessToken_def fetch_def
        Date_now_def rejecting_world_def example_world_def)
  show ?thesis
    using t r getValidAccessToken_refresh_failure_clears_session [OF t x r]
    by (simp add: rejecting_world_def example_world_def)
qed

lemma double_ulp_small: "m < 9007199254740992 \<Longrightarrow> double_ulp m = 1"
  by (subst double_ulp.simps) simp

lemma double_ulp_large: "9007199254740992 \<le> m \<Longrightarrow> double_ulp m = 2 * double_ulp (m div 2)"
  by (subst double_ulp.simps) simp

text \<open>
  Claim C9. For a session that holds an expired token set, when the refresh attempt
  succeeds, \<open>getValidAccessToken\<close> returns the new access token, and the session it
  leaves is the old one with the access token, the refresh token and the expiry
  overwritten, the expiry with what \<^verbatim>\<open>Date.now() + newTokens.expires_in * 1000\<close>
  evaluates to at the clock's next reading; the identity token is the one the session
  held. When \<open>expires_in\<close> in milliseconds, and its sum with that reading, are at most
  \<open>2\<^sup>5\<^sup>3\<close> in magnitude, the stored expiry is the exact sum.
\<close>

theorem getValidAccessToken_refresh_success_frame:
  assumes "getCustomerTokens session = Some tokens"
    and "expiresAt tokens \<le> clock w (ticks w)"
    and "refresh_attempt shopDomain clientId (refreshToken tokens) (snd (Date_now w))
           = (Inr newTokens, w2)"
  shows "getValidAccessToken session shopDomain clientId w =
           (Some (access_token newTokens),
            session\<lparr>customer_access_token := Some (access_token newTokens),
                    customer_refresh_token := Some (refresh_token newTokens),
                    customer_expires_at :=
                      Some (number_add w2 (clock w2 (ticks w2))
                              (number_multiply w2 (expires_in newTokens) 1000))\<rparr>,
            w2\<lparr>ticks := Suc (ticks w2)\<rparr>) \<and>
         customer_id_token (fst (snd (getValidAccessToken session shopDomain clientId w))) =
           customer_id_token session \<and>
         (\<bar>expires_in newTokens * 1000\<bar> \<le> 9007199254740992 \<and>
          \<bar>clock w2 (ticks w2) + expires_in newTokens * 1000\<bar> \<le> 9007199254740992 \<longrightarrow>
          customer_expires_at (fst (snd (getValidAccessToken session shopDomain clientId w))) =
            Some (clock w2 (ticks w2) + expires_in newTokens * 1000))"
  using assms
  by (simp add: getValidAccessToken_def isTokenExpired_def Date_now_def number_add_def
      number_multiply_def)

text \<open>
  A refresh that grants 3600 seconds at the reading 1001, and one that grants
  9007199254740 seconds, where the sum 9007199254741001 is no double and the expiry
  stored is 9007199254741000.
\<close>

theorem getValidAccessToken_refresh_success_frame_witness:
  "getCustomerTokens (stored_session 990) =
     Some \<lparr>accessToken = ''A'', refreshToken = ''R'', idToken = ''H.P.S'', expiresAt = 990\<rparr> \<and>
   clock example_world (ticks example_world) = 1000 \<and>
   fst (refresh_attempt ''shop.example'' ''client-1'' ''R'' (snd (Date_now example_world)))
     = Inr \<lparr>access_token = ''A2'', expires_in = 3600, refresh_token = ''R2''\<rparr> \<and>
   fst (getValidAccessToken (stored_session 990) ''shop.example'' ''client-1'' example_world)
     = Some ''A2'' \<and>
   fst (snd (getValidAccessToken (stored_session 990) ''shop.example'' ''client-1'' example_world))
     = \<lparr>customer_code_verifier = Some ''xyz'', customer_state = Some ''s1'',
        customer_nonce = Some ''n1'', customer_access_token = Some ''A2'',
        customer_refresh_token = Some ''R2'', customer_id_token = Some ''H.P.S'',
        customer_expires_at = Some 3601001\<rparr> \<and>
   fst (snd (getValidAccessToken (stored_session 990) ''shop.example'' ''client-1''
               long_lived_world))
     = \<lparr>customer_code_verifier = Some ''xyz'', customer_state = Some ''s1'',
        customer_nonce = Some ''n1'', customer_access_token = Some ''A2'',
        customer_refresh_token = Some ''R2'', customer_id_token = Some ''H.P.S'',
        customer_expires_at = Some 9007199254741000\<rparr>"
proof -
  let ?t = "\<lparr>accessToken = ''A'', refreshToken = ''R'', idToken = ''H.P.S'', expiresAt = 990\<rparr>"
  let ?n = "\<lparr>access_token = ''A2'', expires_in = 3600, refresh_token = ''R2''\<rparr>"
  let ?l = "\<lparr>access_token = ''A2'', expires_in = 9007199254740, refresh_token = ''R2''\<rparr>"
  have t: "getCustomerTokens (stored_session 990) = Some ?t"
    by (simp add: getCustomerTokens_stored_session)
  have x: "expiresAt ?t \<le> clock example_world (ticks example_world)"
    by (simp add: example_world_def)
  have y: "expiresAt ?t \<le> clock long_lived_world (ticks long_lived_world)"
    by (simp add: long_lived_world_def example_world_def)
  obtain w2 where r: "refresh_attempt ''shop.example'' ''client-1'' (refreshToken ?t)
                  (snd (Date_now example_world)) = (Inr ?n, w2)"
    and c: "clock w2 (ticks w2) = 1001"
    by (simp add: refresh_attempt_def discoverAuthEndpoints_def refreshAccessToken_def fetch_def
        Date_now_def example_world_def)
  obtain w3 where r': "refresh_attempt ''shop.example'' ''client-1'' (refreshToken ?t)
                  (snd (Date_now long_lived_world)) = (Inr ?l, w3)"
    and c': "clock w3 (ticks w3) = 1001"
    and s': "rounded_sum w3 = (\<lambda>a b. nearest_double (a + b))"
    by (simp add: refresh_attempt_def discoverAuthEndpoints_def refreshAccessToken_def fetch_def
        Date_now_def long_lived_world_def example_world_def)
  have n: "nearest_double 9007199254741001 = 9007199254741000"
    by (simp add: nearest_double_def double_ulp_small double_ulp_large)
  show ?thesis
    using t r c r' c' s' n
      getValidAccessToken_refresh_success_frame [OF t x r]
      getValidAccessToken_refresh_success_frame [OF t y r']
    by (simp add: example_world_def stored_session_def number_add_def number_multiply_def)
qed

subsection \<open>The optional guard\<close>

text \<open>
  Claim C6, as amended. For a session that holds an expired token set, \<open>optionalAuth\<close>
  makes no refresh attempt: it returns \<open>null\<close>, leaves the session as it is and issues
  no network call, whatever the configuration and whatever the servers would answer.
\<close>

theorem optionalAuth_expired_returns_null_without_refresh:
  assumes "getCustomerTokens session = Some tokens"
    and "expiresAt tokens \<le> clock w (ticks w)"
  shows "fst (optionalAuth env session w) = None \<and>
         fst (snd (optionalAuth env session w)) = session \<and>
         requests (snd (snd (optionalAuth env session w))) = requests w"
  using assms
  by (auto simp add: optionalAuth_def isCustomerAuthenticated_def isTokenExpired_def Date_now_def
      Let_def split: option.splits prod.splits)

theorem optionalAuth_expired_returns_null_without_refresh_witness:
  "getCustomerTokens (stored_session 990) =
     Some \<lparr>accessToken = ''A'', refreshToken = ''R'', idToken = ''H.P.S'', expiresAt = 990\<rparr> \<and>
   clock rejecting_world (ticks rejecting_world) = 1000 \<and>
   fst (optionalAuth example_env (stored_session 990) rejecting_world) = None \<and>
   fst (snd (optionalAuth example_env (stored_session 990) rejecting_world)) = stored_session 990 \<and>
   requests (snd (snd (optionalAuth example_env (stored_session 990) rejecting_world))) = []"
proof -
  let ?t = "\<lparr>accessToken = ''A'', refreshToken = ''R'', idToken = ''H.P.S'', expiresAt = 990\<rparr>"
  have t: "getCustomerTokens (stored_session 990) = Some ?t"
    by (simp add: getCustomerTokens_stored_session)
  have x: "expiresAt ?t \<le> clock rejecting_world (ticks rejecting_world)"
    by (simp add: rejecting_world_def example_world_def)
  show ?thesis
    using t optionalAuth_expired_returns_null_without_refresh [OF t x, of example_env]
    by (simp add: rejecting_world_def example_world_def)
qed

text \<open>
  The claim as stated fails. The configuration is present, the token set expired 10 ms
  ago and the servers would grant the refresh: the require path,
  \<open>getAuthenticatedToken\<close>, refreshes and returns the new access token \<open>A2\<close>, while
  \<open>optionalAuth\<close> returns \<open>null\<close> and has issued no network call.
\<close>

theorem optionalAuth_expired_no_refresh_counterexample:
  "getCustomerTokens (stored_session 990) =
     Some \<lparr>accessToken = ''A'', refreshToken = ''R'', idToken = ''H.P.S'', expiresAt = 990\<rparr> \<and>
   clock example_world (ticks example_world) = 1000 \<and>
   fst (getAuthenticatedToken example_env (stored_session 990) example_world) = Inr ''A2'' \<and>
   fst (optionalAuth example_env (stored_session 990) example_world) = None \<and>
   requests (snd (snd (optionalAuth example_env (stored_session 990) example_world))) = []"
  by (simp add: getCustomerTokens_stored_session optionalAuth_def getAuthenticatedToken_def
      getValidAccessToken_def isCustomerAuthenticated_def isTokenExpired_def Date_now_def
      refresh_attempt_def discoverAuthEndpoints_def refreshAccessToken_def fetch_def
      example_env_def example_world_def truthy_def or_else_def)

subsection \<open>The authorization callback\<close>

text \<open>
  Claim C1, as amended. When the state a callback request carries differs from the
  state stored in the session, the handler touches neither the session nor the world:
  no network call is made, so \<open>exchangeCodeForToken\<close> is not invoked. When moreover the
  request carries a code and a non-empty state and no \<open>error\<close> parameter, the handler
  ends with the \<open>invalid_state\<close> failure.
\<close>

theorem callback_state_mismatch_no_exchange:
  assumes "map_of (searchParams request) ''state'' = Some state"
    and "customer_state session \<noteq> Some state"
  shows "snd (callback_loader P request env session w) = (session, w) \<and>
         (truthy (map_of (searchParams request) ''error'') = None \<and>
          truthy (map_of (searchParams request) ''code'') \<noteq> None \<and> state \<noteq> [] \<longrightarrow>
          fst (callback_loader P request env session w) =
            Inr (Redirect ''/account/login?error=invalid_state'' None))"
  using assms
  by (auto simp add: callback_loader_def callback_checks_def Let_def truthy_def
      split: option.splits prod.splits sum.splits if_splits)

theorem callback_state_mismatch_no_exchange_witness:
  "map_of (searchParams (example_request [(''code'', ''abc''), (''state'', ''s2'')])) ''state''
     = Some ''s2'' \<and>
   customer_state callback_session = Some ''s1'' \<and>
   callback_loader example_platform (example_request [(''code'', ''abc''), (''state'', ''s2'')])
       example_env callback_session example_world =
     (Inr (Redirect ''/account/login?error=invalid_state'' None), callback_session, example_world)"
proof -
  let ?r = "example_request [(''code'', ''abc''), (''state'', ''s2'')]"
  have a: "map_of (searchParams ?r) ''state'' = Some ''s2''"
    by (simp add: example_request_def)
  have b: "customer_state callback_session \<noteq> Some ''s2''"
    by (simp add: callback_session_def)
  have c: "truthy (map_of (searchParams ?r) ''error'') = None \<and>
          truthy (map_of (searchParams ?r) ''code'') \<noteq> None \<and> ''s2'' \<noteq> []"
    by (simp add: example_request_def truthy_def)
  have d: "customer_state callback_session = Some ''s1''"
    by (simp add: callback_session_def)
  show ?thesis
    using a c d
      callback_state_mismatch_no_exchange [OF a b, of example_platform example_env example_world]
    by (simp add: prod_eq_iff)
qed

text \<open>
  The claim as stated fails: a request that carries a code, a state that differs from
  the stored one, and an \<open>error\<close> parameter ends with that error, not with
  \<open>invalid_state\<close>; the \<open>error\<close> parameter is looked at first.
\<close>

theorem callback_error_parameter_precedes_state_check:
  "map_of (searchParams (example_request
       [(''code'', ''abc''), (''state'', ''s2''), (''error'', ''access_denied'')])) ''code''
     = Some ''abc'' \<and>
   map_of (searchParams (example_request
       [(''code'', ''abc''), (''state'', ''s2''), (''error'', ''access_denied'')])) ''state''
     = Some ''s2'' \<and>
   customer_state callback_session = Some ''s1'' \<and>
   fst (callback_loader example_platform
          (example_request [(''code'', ''abc''), (''state'', ''s2''), (''error'', ''access_denied'')])
          example_env callback_session example_world) =
     Inr (Redirect ''/account/login?error=access_denied'' None)"
  by (simp add: callback_loader_def callback_checks_def example_request_def callback_session_def
      truthy_def)

lemma callback_checks_example:
  "callback_checks (example_request [(''code'', ''abc''), (''state'', ''s1'')]) example_env
       callback_session
     = Inr (''abc'', ''xyz'', ''client-1'', ''91454472574'')"
  by (simp add: callback_checks_def example_request_def example_env_def callback_session_def
      truthy_def or_else_def determine_shop_id_def match_shop_id_def)

text \<open>
  Claim C2. The checks before the \<open>try\<close> block have passed and the code exchange has
  succeeded. When the session holds a nonce and the nonce decoded from the identity
  token (\<open>undefined\<close> included) differs from it, the handler ends with the
  \<open>invalid_nonce\<close> failure, without a \<open>Set-Cookie\<close> header, and the session is as it was:
  none of the keys of the token set is written.
\<close>

theorem callback_nonce_mismatch_discards_tokens:
  assumes "callback_checks request env session = Inr (code, codeVerifier, clientId, shopId)"
    and "exchangeCodeForToken (''https://shopify.com/authentication/'' @ shopId @ ''/oauth/token'')
           clientId (origin request @ ''/account/authorize/callback'') code codeVerifier w
         = (Inr tokenResponse, w1)"
    and "customer_nonce session = Some storedNonce" and "storedNonce \<noteq> []"
    and "getNonce P (id_token tokenResponse) = Inr tokenNonce"
    and "tokenNonce \<noteq> Some (JString storedNonce)"
  shows "callback_loader P request env session w =
           (Inr (Redirect ''/account/login?error=invalid_nonce'' None), session, w1)"
  using assms by (simp add: callback_loader_def callback_try_def truthy_def)

text \<open>
  The scenario of the specification: the stored nonce is \<open>n1\<close> and the identity token
  that the exchange returns carries the nonce \<open>n2\<close>.
\<close>

theorem callback_nonce_mismatch_discards_tokens_witness:
  "customer_nonce callback_session = Some ''n1'' \<and>
   getNonce example_platform ''e30.eyJub25jZSI6Im4yIn0.S'' = Inr (Some (JString ''n2'')) \<and>
   fst (callback_loader example_platform (example_request [(''code'', ''abc''), (''state'', ''s1'')])
          example_env callback_session example_world) =
     Inr (Redirect ''/account/login?error=invalid_nonce'' None) \<and>
   fst (snd (callback_loader example_platform
               (example_request [(''code'', ''abc''), (''state'', ''s1'')])
               example_env callback_session example_world)) = callback_session \<and>
   length (requests (snd (snd (callback_loader example_platform
               (example_request [(''code'', ''abc''), (''state'', ''s1'')])
               example_env callback_session example_world)))) = 1"
proof -
  let ?r = "example_request [(''code'', ''abc''), (''state'', ''s1'')]"
  let ?tr = "\<lparr>access_token = ''A'', expires_in = 3600, refresh_token = ''R'',
            id_token = ''e30.eyJub25jZSI6Im4yIn0.S''\<rparr>"
  obtain w1 where x: "exchangeCodeForToken
           (''https://shopify.com/authentication/'' @ ''91454472574'' @ ''/oauth/token'')
           ''client-1'' (origin ?r @ ''/account/authorize/callback'') ''abc'' ''xyz'' example_world
         = (Inr ?tr, w1)"
    and l: "length (requests w1) = 1"
    by (simp add: exchangeCodeForToken_def fetch_def example_world_def)
  have n: "customer_nonce callback_session = Some ''n1''"
    by (simp add: callback_session_def)
  have g: "getNonce example_platform (id_token ?tr) = Inr (Some (JString ''n2''))"
    by (simp add: getNonce_def decodeJwt_def element_def truthy_def example_platform_def)
  show ?thesis
    using n g l
      callback_nonce_mismatch_discards_tokens [OF callback_checks_example x n _ g]
    by simp
qed

subsection \<open>Logout\<close>

text \<open>
  Claim C10. The session that the logout route leaves is the one it was given with the
  four keys of the token set unset (the one it was given, when the route throws because
  the store domain is not configured): the code verifier, the state and the nonce are
  as they were. \<open>clearCustomerSession\<close> leaves all seven keys unset.
\<close>

theorem logout_loader_unsets_token_keys_only:
  "fst (snd (logout_loader P request env session w)) =
     (if truthy (PUBLIC_STORE_DOMAIN env) = None then session
      else session\<lparr>customer_access_token := None, customer_refresh_token := None,
                   customer_id_token := None, customer_expires_at := None\<rparr>) \<and>
   customer_code_verifier (fst (snd (logout_loader P request env session w))) =
     customer_code_verifier session \<and>
   customer_state (fst (snd (logout_loader P request env session w))) = customer_state session \<and>
   customer_nonce (fst (snd (logout_loader P request env session w))) = customer_nonce session \<and>
   clearCustomerSession session =
     \<lparr>customer_code_verifier = None, customer_state = None, customer_nonce = None,
      customer_access_token = None, customer_refresh_token = None,
      customer_id_token = None, customer_expires_at = None\<rparr>"
  by (auto simp add: logout_loader_def logout_home_def clearCustomerSession_def Let_def
      split: option.splits prod.splits sum.splits)

text \<open>A logout from a session that holds a token set and the values of a login in flight.\<close>

theorem logout_loader_unsets_token_keys_only_witness:
  "fst (logout_loader example_platform (example_request []) example_env (stored_session 5000)
          example_world) =
     Inr (Redirect (''https://shopify.com/authentication/91454472574/logout''
                      @ ''?id_token_hint=H.P.S''
                      @ ''&post_logout_redirect_uri=https%3A%2F%2Fshop.example%2F'')
            (Some ''session=committed'')) \<and>
   fst (snd (logout_loader example_platform (example_request []) example_env (stored_session 5000)
               example_world)) =
     \<lparr>customer_code_verifier = Some ''xyz'', customer_state = Some ''s1'',
      customer_nonce = Some ''n1'', customer_access_token = None,
      customer_refresh_token = None, customer_id_token = None, customer_expires_at = None\<rparr>"
proof -
  have "fst (logout_loader example_platform (example_request []) example_env (stored_session 5000)
          example_world) =
     Inr (Redirect (''https://shopify.com/authentication/91454472574/logout''
                      @ ''?id_token_hint=H.P.S''
                      @ ''&post_logout_redirect_uri=https%3A%2F%2Fshop.example%2F'')
            (Some ''session=committed''))"
    by (simp add: logout_loader_def buildLogoutUrl_def discoverAuthEndpoints_def fetch_def
        example_platform_def example_request_def example_env_def stored_session_def
        example_world_def truthy_def)
  then show ?thesis
    using logout_loader_unsets_token_keys_only
      [of example_platform "example_request []" example_env "stored_session 5000" example_world]
    by (simp add: example_env_def stored_session_def truthy_def)
qed

end
